theory Spec2Isabelle
  imports Main
begin

section \<open>Strings, vocabularies and numbers\<close>

text \<open>
  The voice assistant of \<^verbatim>\<open>src/components/VoiceAssistant.tsx\<close> works on JavaScript
  strings. A string is modelled as the list of its UTF-16 code units, so that the
  Malayalam vocabulary can be written code point by code point and \<open>[]\<close> is the empty
  (falsy) string. \<open>str\<close> turns an ASCII literal into such a list.
\<close>

type_synonym jsstring = "nat list"

definition str :: "string \<Rightarrow> jsstring" where
  "str s = map of_char s"

text \<open>
  Every vocabulary is a regular expression of the shape \<^verbatim>\<open>/w1|w2|...|wn/i\<close> used with
  \<^verbatim>\<open>.test(transcript)\<close>: the transcript matches when one of the words occurs somewhere
  in it, compared without regard to case. For the words used here the \<^verbatim>\<open>i\<close> flag only
  identifies the ASCII letters \<open>A-Z\<close> with \<open>a-z\<close>; Malayalam has no case.
\<close>

definition lower :: "nat \<Rightarrow> nat" where
  "lower c = (if 65 \<le> c \<and> c \<le> 90 then c + 32 else c)"

fun startsWithCI :: "jsstring \<Rightarrow> jsstring \<Rightarrow> bool" where
  "startsWithCI [] s = True"
| "startsWithCI (p # ps) [] = False"
| "startsWithCI (p # ps) (c # cs) = (lower p = lower c \<and> startsWithCI ps cs)"

fun includesCI :: "jsstring \<Rightarrow> jsstring \<Rightarrow> bool" where
  "includesCI p [] = startsWithCI p []"
| "includesCI p (c # cs) = (startsWithCI p (c # cs) \<or> includesCI p cs)"

definition test :: "jsstring list \<Rightarrow> jsstring \<Rightarrow> bool" where
  "test alternatives transcript = list_ex (\<lambda>p. includesCI p transcript) alternatives"

text \<open>
  One regular expression has no \<^verbatim>\<open>i\<close> flag (line 125); its words must occur as
  they are written.
\<close>

fun startsWith :: "jsstring \<Rightarrow> jsstring \<Rightarrow> bool" where
  "startsWith [] s = True"
| "startsWith (p # ps) [] = False"
| "startsWith (p # ps) (c # cs) = (p = c \<and> startsWith ps cs)"

fun includesExact :: "jsstring \<Rightarrow> jsstring \<Rightarrow> bool" where
  "includesExact p [] = startsWith p []"
| "includesExact p (c # cs) = (startsWith p (c # cs) \<or> includesExact p cs)"

definition testExact :: "jsstring list \<Rightarrow> jsstring \<Rightarrow> bool" where
  "testExact alternatives text = list_ex (\<lambda>p. includesExact p text) alternatives"

text \<open>The vocabularies, in the order of their alternatives in the source.\<close>

definition successWords :: "jsstring list" where
  \<comment> \<open>line 125: successfully and its Malayalam counterpart\<close>
  "successWords =
     [str ''successfully'',
      [0x0D35, 0x0D3F, 0x0D1C, 0x0D2F, 0x0D15, 0x0D30, 0x0D2E, 0x0D3E, 0x0D2F, 0x0D3F]]"


definition affirmative :: "jsstring list" where
  \<comment> \<open>lines 258 and 399: yes, save, okay, confirm and three Malayalam words\<close>
  "affirmative =
     [str ''yes'', str ''save'', str ''okay'', str ''confirm'',
      [0x0D36, 0x0D30, 0x0D3F],
      [0x0D38, 0x0D47, 0x0D35, 0x0D4D],
      [0x0D09, 0x0D23, 0x0D4D, 0x0D1F, 0x0D4D]]"

definition negative :: "jsstring list" where
  \<comment> \<open>lines 287 and 427: no, change, back and three Malayalam words\<close>
  "negative =
     [str ''no'', str ''change'', str ''back'',
      [0x0D35, 0x0D47, 0x0D23, 0x0D4D, 0x0D1F],
      [0x0D2E, 0x0D3E, 0x0D31, 0x0D4D, 0x0D31, 0x0D02],
      [0x0D24, 0x0D3F, 0x0D30, 0x0D3F, 0x0D1A, 0x0D4D, 0x0D1A, 0x0D4D]]"

definition resetWords :: "jsstring list" where
  \<comment> \<open>lines 301 and 439: clear, reset and two Malayalam words\<close>
  "resetWords =
     [str ''clear'', str ''reset'',
      [0x0D35, 0x0D4D, 0x0D2F, 0x0D15, 0x0D4D, 0x0D24, 0x0D02],
      [0x0D31, 0x0D40, 0x0D38, 0x0D46, 0x0D31, 0x0D4D, 0x0D31, 0x0D4D]]"

definition cancelWords :: "jsstring list" where
  \<comment> \<open>lines 308 and 446: cancel, exit, stop and two Malayalam words; the first of them
      is also the fourth word of \<open>negative\<close>\<close>
  "cancelWords =
     [str ''cancel'', str ''exit'', str ''stop'',
      [0x0D35, 0x0D47, 0x0D23, 0x0D4D, 0x0D1F],
      [0x0D2A, 0x0D41, 0x0D31, 0x0D24, 0x0D4D, 0x0D24, 0x0D4D]]"

definition purchaseWords :: "jsstring list" where
  \<comment> \<open>line 472\<close>
  "purchaseWords =
     [str ''purchase'', str ''buy'',
      [0x0D35, 0x0D3E, 0x0D19, 0x0D4D, 0x0D19, 0x0D7D],
      [0x0D35, 0x0D3E, 0x0D19, 0x0D4D, 0x0D19, 0x0D3F]]"

definition borrowWords :: "jsstring list" where
  \<comment> \<open>line 477\<close>
  "borrowWords = [str ''borrow'', [0x0D15, 0x0D1F, 0x0D02]]"

definition unknownSupplierWords :: "jsstring list" where
  \<comment> \<open>lines 765 and 777\<close>
  "unknownSupplierWords =
     [str ''unknown'', str ''blank'', str ''supplier'', str ''person'',
      [0x0D05, 0x0D1C, 0x0D4D, 0x0D1E, 0x0D3E, 0x0D24]]"

subsection \<open>Digit runs\<close>

text \<open>
  \<^verbatim>\<open>transcript.match(/\d+/)\<close> yields the first maximal run of the digits \<open>0-9\<close>, or
  nothing. \<open>parseInt\<close> is only ever applied to such a run, and its result is only
  compared with zero: it is modelled by the exact value of the run (the comparison with
  zero is the same for the floating point number JavaScript computes).
\<close>

definition isDigit :: "nat \<Rightarrow> bool" where
  "isDigit c = (48 \<le> c \<and> c \<le> 57)"

definition notDigit :: "nat \<Rightarrow> bool" where
  "notDigit c = (\<not> isDigit c)"

definition firstDigitRun :: "jsstring \<Rightarrow> jsstring option" where
  "firstDigitRun s =
     (case dropWhile notDigit s of
        [] \<Rightarrow> None
      | d # ds \<Rightarrow> Some (takeWhile isDigit (d # ds)))"

definition parseInt :: "jsstring \<Rightarrow> nat" where
  "parseInt ds = foldl (\<lambda>n c. 10 * n + (c - 48)) 0 ds"

text \<open>All maximal digit runs of a string, from left to right.\<close>

function digitRuns :: "jsstring \<Rightarrow> jsstring list" where
  "digitRuns s =
     (case dropWhile notDigit s of
        [] \<Rightarrow> []
      | d # ds \<Rightarrow> takeWhile isDigit (d # ds) # digitRuns (dropWhile isDigit (d # ds)))"
  by pat_completeness auto
termination
proof (relation "measure length")
  show "wf (measure length)" by simp
next
  fix s :: jsstring and d ds
  assume a: "dropWhile notDigit s = d # ds"
  from a have "isDigit d"
    using hd_dropWhile [of notDigit s] by (simp add: notDigit_def)
  then have "length (dropWhile isDigit (d # ds)) \<le> length ds"
    by (simp add: length_dropWhile_le)
  moreover have "length (d # ds) \<le> length s"
    using length_dropWhile_le [of notDigit s] a by simp
  ultimately show "(dropWhile isDigit (d # ds), s) \<in> measure length"
    by simp
qed

declare digitRuns.simps [simp del]

subsection \<open>Printing a number\<close>

text \<open>
  \<^verbatim>\<open>Number.prototype.toString\<close> on the parser's value, taken to be an integer as
  the specification says. The definition is the JavaScript result for values of
  magnitude below \<open>10^21\<close>, printed as plain decimal digits. From \<open>10^21\<close> on
  JavaScript prints exponent notation (\<^verbatim>\<open>1e+21\<close>), which is not reproduced here; no
  statement below is about the printed form of a parsed value.
\<close>

function natToString :: "nat \<Rightarrow> jsstring" where
  "natToString n = (if n < 10 then [48 + n] else natToString (n div 10) @ [48 + n mod 10])"
  by pat_completeness auto
termination
  by (relation "measure id") auto

declare natToString.simps [simp del]

definition toString :: "int \<Rightarrow> jsstring" where
  "toString v = (if v < 0 then 45 # natToString (nat (- v)) else natToString (nat v))"

subsection \<open>Whitespace and numeric strings\<close>

text \<open>
  \<^verbatim>\<open>String.prototype.trim\<close> removes the white space and line terminator code units of
  ECMAScript from both ends.
\<close>

definition isWhiteSpace :: "nat \<Rightarrow> bool" where
  "isWhiteSpace c =
     (c \<in> {0x09, 0x0A, 0x0B, 0x0C, 0x0D, 0x20, 0xA0, 0x1680, 0x2028, 0x2029, 0x202F,
            0x205F, 0x3000, 0xFEFF} \<or> (0x2000 \<le> c \<and> c \<le> 0x200A))"

definition trim :: "jsstring \<Rightarrow> jsstring" where
  "trim s = rev (dropWhile isWhiteSpace (rev (dropWhile isWhiteSpace s)))"

text \<open>
  \<^verbatim>\<open>isNaN(Number(s))\<close> for a string: \<open>Number\<close> accepts, between optional white space,
  nothing at all (zero), a signed decimal literal with optional fraction and exponent,
  \<open>Infinity\<close>, or an unsigned binary, octal or hexadecimal literal.
\<close>

definition decimalDigits :: "jsstring \<Rightarrow> bool" where
  "decimalDigits s = (s \<noteq> [] \<and> list_all isDigit s)"

definition exponentPart :: "jsstring \<Rightarrow> bool" where
  \<comment> \<open>an optional exponent: nothing, or e/E, an optional sign and digits\<close>
  "exponentPart s =
     (case s of
        [] \<Rightarrow> True
      | c # r \<Rightarrow> (c = 101 \<or> c = 69) \<and>
          (case r of
             [] \<Rightarrow> False
           | g # r' \<Rightarrow> if g = 43 \<or> g = 45 then decimalDigits r' else decimalDigits r))"

definition unsignedDecimal :: "jsstring \<Rightarrow> bool" where
  "unsignedDecimal s =
     (s = str ''Infinity'' \<or>
      (let ip = takeWhile isDigit s in
       case dropWhile isDigit s of
         [] \<Rightarrow> ip \<noteq> []
       | c # r \<Rightarrow>
           if c = 46
           then (ip \<noteq> [] \<or> takeWhile isDigit r \<noteq> []) \<and> exponentPart (dropWhile isDigit r)
           else ip \<noteq> [] \<and> exponentPart (c # r)))"

definition radixDigit :: "nat \<Rightarrow> nat \<Rightarrow> bool" where
  "radixDigit radix c =
     (if radix = 16 then isDigit c \<or> (97 \<le> c \<and> c \<le> 102) \<or> (65 \<le> c \<and> c \<le> 70)
      else 48 \<le> c \<and> c < 48 + radix)"

definition nonDecimal :: "jsstring \<Rightarrow> bool" where
  "nonDecimal s =
     (case s of
        z # x # ds \<Rightarrow>
          z = 48 \<and> ds \<noteq> [] \<and>
          (if lower x = 120 then list_all (radixDigit 16) ds
           else if lower x = 111 then list_all (radixDigit 8) ds
           else if lower x = 98 then list_all (radixDigit 2) ds
           else False)
      | _ \<Rightarrow> False)"

definition isNaN_Number :: "jsstring \<Rightarrow> bool" where
  "isNaN_Number s =
     (let t = trim s in
      if t = [] then False
      else if nonDecimal t then False
      else case t of
             c # r \<Rightarrow> if c = 43 \<or> c = 45 then \<not> unsignedDecimal r else \<not> unsignedDecimal t
           | [] \<Rightarrow> False)"

section \<open>The state of the assistant\<close>

text \<open>
  The two conversation types of the source (lines 13 to 27). Both records have the
  fields step, amount and paid; the loan (borrow) ones carry the prefix \<open>b_\<close> and the
  purchase ones \<open>p_\<close>.
\<close>

datatype BorrowConversationStep =
  b_idle | b_askName | b_askAmount | b_askPaid | b_confirm | b_done

record BorrowConversationState =
  b_step :: BorrowConversationStep
  b_name :: jsstring
  b_amount :: jsstring
  b_paid :: jsstring

datatype PurchaseConversationStep =
  p_idle | p_askSupplier | p_askAmount | p_askPaid | p_confirm | p_done

record PurchaseConversationState =
  p_step :: PurchaseConversationStep
  p_supplier :: jsstring
  p_amount :: jsstring
  p_paid :: jsstring

text \<open>
  Every text the assistant shows (\<^verbatim>\<open>setResponse\<close>) or speaks (\<^verbatim>\<open>speakMemo\<close>) is one
  of the following templates, each with an English and a Malayalam wording chosen by
  \<^verbatim>\<open>isEnglish\<close>; the model keeps the template and the values put into it.
\<close>

datatype prompt =
    AskBorrowName                               \<comment> \<open>Who did you borrow from?\<close>
  | AskBorrowAmount jsstring                    \<comment> \<open>How much did you borrow from NAME?\<close>
  | AmountNotUnderstood jsstring                \<comment> \<open>shown: I couldn't understand the amount "TEXT". Please say a clear number ...\<close>
  | AmountNotUnderstoodSpoken                   \<comment> \<open>spoken: I couldn't understand the amount. Please say a clear number ...\<close>
  | AskBorrowPaid                               \<comment> \<open>How much have you paid back so far?\<close>
  | ConfirmBorrow jsstring jsstring jsstring    \<comment> \<open>You borrowed AMOUNT from NAME and have paid back PAID. Should I save this?\<close>
  | MissingBorrowInfo                           \<comment> \<open>Missing required information. Please provide the person's name and amount.\<close>
  | RecordAdded                                 \<comment> \<open>Record added successfully!\<close>
  | ChangeBorrowAmount                          \<comment> \<open>Okay, let's change the amount. How much did you borrow?\<close>
  | SayYesOrNo                                  \<comment> \<open>Please say Yes to save, or No to change.\<close>
  | BorrowFormCleared                           \<comment> \<open>Form cleared. Let's start again. Who did you borrow from?\<close>
  | Cancelled                                   \<comment> \<open>Cancelled.\<close>
  | AskSupplier                                 \<comment> \<open>Let's add a purchase record. Who is the supplier?\<close>
  | AskPurchaseAmount jsstring                  \<comment> \<open>How much did you purchase from SUPPLIER?\<close>
  | AskPurchasePaid                             \<comment> \<open>How much have you paid so far?\<close>
  | ConfirmPurchase jsstring jsstring jsstring  \<comment> \<open>You purchased for AMOUNT from SUPPLIER and have paid PAID. Should I save this?\<close>
  | MissingPurchaseInfo                         \<comment> \<open>Missing required information. Please provide the supplier name and amount.\<close>
  | PurchaseRecordAdded                         \<comment> \<open>Purchase record added successfully!\<close>
  | ChangePurchaseAmount                        \<comment> \<open>Okay, let's change the amount. How much did you purchase?\<close>
  | PurchaseFormCleared                         \<comment> \<open>Form cleared. Let's start again. Who is the supplier?\<close>
  | ErrorReason "jsstring option"               \<comment> \<open>Error: REASON, or Error: Failed to add record. when no reason came\<close>
  | BorrowRecordAdded                           \<comment> \<open>Borrow record added successfully!\<close>
  | BorrowSaveFailed                            \<comment> \<open>Failed to save borrow record. Please try again.\<close>
  | PurchaseSaveFailed                          \<comment> \<open>Failed to save purchase. Please try again.\<close>
  | CommandMessage jsstring                     \<comment> \<open>a text of the single-shot command interpreter, as it gave it\<close>

text \<open>
  The events the component sends with \<^verbatim>\<open>window.dispatchEvent\<close>: the two commit
  requests with their \<^verbatim>\<open>detail\<close> (name or supplier, total, amount paid), the
  transaction a single-shot command added (type, amount, category, description) and the
  refresh signal. The result of a commit comes back as the \<^verbatim>\<open>detail\<close> of an
  \<^verbatim>\<open>add-borrow-result\<close> or \<^verbatim>\<open>add-purchase-result\<close> event.
\<close>

datatype window_event =
    AddBorrow jsstring jsstring jsstring
  | AddPurchase jsstring jsstring jsstring
  | AddTransaction jsstring int jsstring jsstring
  | DataUpdated

record save_result =
  success :: bool
  error :: "jsstring option"

text \<open>
  The state of the component: its \<^verbatim>\<open>useState\<close> cells, and what it has done to the
  outside so far. \<open>spoken\<close> lists the texts passed to \<^verbatim>\<open>speakMemo\<close>, \<open>dispatched\<close> the
  events sent, \<open>delegated\<close> the transcripts handed to \<^verbatim>\<open>processVoiceCommand\<close>.
  \<open>pendingBorrowSave\<close> and \<open>pendingPurchaseSave\<close> say whether the listener a Save
  click registers for the result (\<^verbatim>\<open>handleSaveResult\<close>) is still registered; a click
  needs \<open>isSaving\<close> to be false and sets it, so at most one such listener exists.
\<close>

record VoiceAssistant =
  borrowState :: BorrowConversationState
  purchaseState :: PurchaseConversationState
  borrowConfirmEdit :: "BorrowConversationState option"
  purchaseConfirmEdit :: "PurchaseConversationState option"
  isProcessing :: bool
  isSaving :: bool
  response :: "prompt option"
  spoken :: "prompt list"
  dispatched :: "window_event list"
  delegated :: "jsstring list"
  pendingBorrowSave :: bool
  pendingPurchaseSave :: bool

definition emptyBorrow :: BorrowConversationState where
  "emptyBorrow = \<lparr>b_step = b_idle, b_name = [], b_amount = [], b_paid = []\<rparr>"

definition emptyPurchase :: PurchaseConversationState where
  "emptyPurchase = \<lparr>p_step = p_idle, p_supplier = [], p_amount = [], p_paid = []\<rparr>"

definition initial :: VoiceAssistant where
  "initial =
     \<lparr>borrowState = emptyBorrow, purchaseState = emptyPurchase,
      borrowConfirmEdit = None, purchaseConfirmEdit = None,
      isProcessing = False, isSaving = False, response = None, spoken = [],
      dispatched = [], delegated = [],
      pendingBorrowSave = False, pendingPurchaseSave = False\<rparr>"

text \<open>\<^verbatim>\<open>setResponse(p); speakMemo(p)\<close>, the pair nearly every branch ends with.\<close>

definition say :: "prompt \<Rightarrow> VoiceAssistant \<Rightarrow> VoiceAssistant" where
  "say p s = s\<lparr>response := Some p, spoken := spoken s @ [p]\<rparr>"

text \<open>
  \<^verbatim>\<open>window.dispatchEvent\<close> of a commit request. The component listens to its own
  \<^verbatim>\<open>add-borrow\<close> and \<^verbatim>\<open>add-purchase\<close> events (lines 522 to 538) and answers each
  with \<^verbatim>\<open>data-updated\<close>.
\<close>

definition dispatchEvent :: "window_event \<Rightarrow> VoiceAssistant \<Rightarrow> VoiceAssistant" where
  "dispatchEvent e s = s\<lparr>dispatched := dispatched s @ [e, DataUpdated]\<rparr>"

definition orZero :: "jsstring \<Rightarrow> jsstring" where
  \<comment> \<open>\<^verbatim>\<open>paid || '0'\<close>\<close>
  "orZero paid = (if paid = [] then str ''0'' else paid)"

section \<open>Reading amounts\<close>

text \<open>
  \<^verbatim>\<open>universalNumberParser\<close> lives in \<^verbatim>\<open>services/voiceCommandService\<close>, which is not
  among the sources; every function that calls it takes it as its first argument.
  It returns a number or \<^verbatim>\<open>null\<close>.

  Both flows read the primary amount with the same lines (192 to 217, 333 to 358): the
  parser's value when it is positive, else the first digit run when it parses to a
  positive number, else nothing.
\<close>

definition readAmount :: "(jsstring \<Rightarrow> int option) \<Rightarrow> jsstring \<Rightarrow> jsstring option" where
  "readAmount universalNumberParser transcript =
     (case universalNumberParser transcript of
        Some parsedAmount \<Rightarrow>
          if parsedAmount > 0 then Some (toString parsedAmount)
          else (case firstDigitRun transcript of
                  Some digitMatch \<Rightarrow> if parseInt digitMatch > 0 then Some digitMatch else None
                | None \<Rightarrow> None)
      | None \<Rightarrow>
          (case firstDigitRun transcript of
             Some digitMatch \<Rightarrow> if parseInt digitMatch > 0 then Some digitMatch else None
           | None \<Rightarrow> None))"

text \<open>
  The paid amount (lines 227 to 244, 368 to 385): the parser's value when it is not
  negative, else the first digit run, else \<open>0\<close>.
\<close>

definition readPaid :: "(jsstring \<Rightarrow> int option) \<Rightarrow> jsstring \<Rightarrow> jsstring" where
  "readPaid universalNumberParser transcript =
     (case universalNumberParser transcript of
        Some parsedPaid \<Rightarrow>
          if parsedPaid \<ge> 0 then toString parsedPaid
          else (case firstDigitRun transcript of
                  Some digitMatch \<Rightarrow> digitMatch
                | None \<Rightarrow> str ''0'')
      | None \<Rightarrow>
          (case firstDigitRun transcript of
             Some digitMatch \<Rightarrow> digitMatch
           | None \<Rightarrow> str ''0''))"

section \<open>The loan conversation\<close>

definition resetBorrowConversation :: "VoiceAssistant \<Rightarrow> VoiceAssistant" where
  "resetBorrowConversation s = s\<lparr>borrowState := emptyBorrow\<rparr>"

definition startBorrowConversation :: "VoiceAssistant \<Rightarrow> VoiceAssistant" where
  "startBorrowConversation s =
     say AskBorrowName (s\<lparr>borrowState := emptyBorrow\<lparr>b_step := b_askName\<rparr>\<rparr>)"

definition handleBorrowReply ::
  "(jsstring \<Rightarrow> int option) \<Rightarrow> jsstring \<Rightarrow> VoiceAssistant \<Rightarrow> VoiceAssistant" where
  "handleBorrowReply universalNumberParser transcript s =
     (let bs = borrowState s in
      if b_step bs = b_askName then
        say (AskBorrowAmount transcript)
          (s\<lparr>borrowState := bs\<lparr>b_name := transcript, b_step := b_askAmount\<rparr>\<rparr>)
      else if b_step bs = b_askAmount then
        (case readAmount universalNumberParser transcript of
           None \<Rightarrow>
             s\<lparr>response := Some (AmountNotUnderstood transcript),
               spoken := spoken s @ [AmountNotUnderstoodSpoken]\<rparr>
         | Some amount \<Rightarrow>
             say AskBorrowPaid (s\<lparr>borrowState := bs\<lparr>b_amount := amount, b_step := b_askPaid\<rparr>\<rparr>))
      else if b_step bs = b_askPaid then
        (let paid = readPaid universalNumberParser transcript;
             newState = bs\<lparr>b_paid := paid, b_step := b_confirm\<rparr>
         in say (ConfirmBorrow (b_amount bs) (b_name bs) paid)
              (s\<lparr>borrowState := newState, borrowConfirmEdit := Some newState\<rparr>))
      else if b_step bs = b_confirm then
        (if test affirmative transcript then
           (let data = (case borrowConfirmEdit s of Some e \<Rightarrow> e | None \<Rightarrow> bs) in
            if b_name data = [] \<or> b_amount data = [] \<or> b_amount data = str ''0''
            then say MissingBorrowInfo s
            else say RecordAdded
                   ((dispatchEvent (AddBorrow (b_name data) (b_amount data) (orZero (b_paid data))) s)
                      \<lparr>borrowState := bs\<lparr>b_step := b_done\<rparr>, borrowConfirmEdit := None\<rparr>))
         else if test negative transcript then
           say ChangeBorrowAmount
             (s\<lparr>borrowState := bs\<lparr>b_step := b_askAmount\<rparr>, borrowConfirmEdit := None\<rparr>)
         else say SayYesOrNo s)
      else s)"

text \<open>
  The quick commands (lines 300 to 315). The result says whether the transcript was
  consumed. Reset is tested first; it empties the slots and then sets the step to
  \<open>askName\<close>. Neither command touches \<open>borrowConfirmEdit\<close>.
\<close>

definition handleQuickCommands :: "jsstring \<Rightarrow> VoiceAssistant \<Rightarrow> bool \<times> VoiceAssistant" where
  "handleQuickCommands transcript s =
     (if test resetWords transcript then
        (True, (say BorrowFormCleared (resetBorrowConversation s))
                 \<lparr>borrowState := emptyBorrow\<lparr>b_step := b_askName\<rparr>\<rparr>)
      else if test cancelWords transcript then
        (True, say Cancelled (resetBorrowConversation s))
      else (False, s))"

section \<open>The purchase conversation\<close>

definition resetPurchaseConversation :: "VoiceAssistant \<Rightarrow> VoiceAssistant" where
  "resetPurchaseConversation s = s\<lparr>purchaseState := emptyPurchase\<rparr>"

definition startPurchaseConversation :: "VoiceAssistant \<Rightarrow> VoiceAssistant" where
  "startPurchaseConversation s =
     say AskSupplier (s\<lparr>purchaseState := emptyPurchase\<lparr>p_step := p_askSupplier\<rparr>\<rparr>)"

definition handlePurchaseReply ::
  "(jsstring \<Rightarrow> int option) \<Rightarrow> jsstring \<Rightarrow> VoiceAssistant \<Rightarrow> VoiceAssistant" where
  "handlePurchaseReply universalNumberParser transcript s =
     (let ps = purchaseState s in
      if p_step ps = p_askSupplier then
        say (AskPurchaseAmount transcript)
          (s\<lparr>purchaseState := ps\<lparr>p_supplier := transcript, p_step := p_askAmount\<rparr>\<rparr>)
      else if p_step ps = p_askAmount then
        (case readAmount universalNumberParser transcript of
           None \<Rightarrow>
             s\<lparr>response := Some (AmountNotUnderstood transcript),
               spoken := spoken s @ [AmountNotUnderstoodSpoken]\<rparr>
         | Some amount \<Rightarrow>
             say AskPurchasePaid
               (s\<lparr>purchaseState := ps\<lparr>p_amount := amount, p_step := p_askPaid\<rparr>\<rparr>))
      else if p_step ps = p_askPaid then
        (let paid = readPaid universalNumberParser transcript;
             newState = ps\<lparr>p_paid := paid, p_step := p_confirm\<rparr>
         in say (ConfirmPurchase (p_amount ps) (p_supplier ps) paid)
              (s\<lparr>purchaseState := newState, purchaseConfirmEdit := Some newState\<rparr>))
      else if p_step ps = p_confirm then
        (if test affirmative transcript then
           (let data = (case purchaseConfirmEdit s of Some e \<Rightarrow> e | None \<Rightarrow> ps) in
            if p_supplier data = [] \<or> p_amount data = [] \<or> p_amount data = str ''0''
            then say MissingPurchaseInfo s
            else say PurchaseRecordAdded
                   ((dispatchEvent
                       (AddPurchase (p_supplier data) (p_amount data) (orZero (p_paid data))) s)
                      \<lparr>purchaseState := ps\<lparr>p_step := p_done\<rparr>, purchaseConfirmEdit := None\<rparr>))
         else if test negative transcript then
           say ChangePurchaseAmount
             (s\<lparr>purchaseState := ps\<lparr>p_step := p_askAmount\<rparr>, purchaseConfirmEdit := None\<rparr>)
         else say SayYesOrNo s)
      else s)"

definition handlePurchaseQuickCommands ::
  "jsstring \<Rightarrow> VoiceAssistant \<Rightarrow> bool \<times> VoiceAssistant" where
  "handlePurchaseQuickCommands transcript s =
     (if test resetWords transcript then
        (True, (say PurchaseFormCleared (resetPurchaseConversation s))
                 \<lparr>purchaseState := emptyPurchase\<lparr>p_step := p_askSupplier\<rparr>\<rparr>)
      else if test cancelWords transcript then
        (True, say Cancelled (resetPurchaseConversation s))
      else (False, s))"

section \<open>Routing a transcript\<close>

text \<open>
  \<^verbatim>\<open>processVoiceCommand\<close> (lines 116 to 142) hands the transcript to the single-shot
  command interpreter \<^verbatim>\<open>VoiceCommandService.processCommand\<close>, a collaborator that is
  not among the sources, and waits for its result. The part before the wait sets
  \<open>isProcessing\<close>; the part after it is \<open>processVoiceCommandResolved\<close>, run when the
  result comes: the message is shown, \<open>isProcessing\<close> is cleared, the summary (or,
  without one, the message) is spoken, and a successful result whose message has a
  success word is announced with \<^verbatim>\<open>data-updated\<close>, preceded by \<^verbatim>\<open>add-transaction\<close>
  when type, amount and category are all given. An absent text is the empty string and
  an absent amount is \<open>None\<close>; the debug text, which is only displayed, is left out.
\<close>

record command_result =
  cr_success :: bool
  cr_message :: jsstring
  cr_summary :: jsstring
  cr_type :: jsstring
  cr_amount :: "int option"
  cr_category :: jsstring
  cr_description :: jsstring

definition processVoiceCommand :: "jsstring \<Rightarrow> VoiceAssistant \<Rightarrow> VoiceAssistant" where
  "processVoiceCommand command s = s\<lparr>isProcessing := True, delegated := delegated s @ [command]\<rparr>"

definition processVoiceCommandResolved :: "command_result \<Rightarrow> VoiceAssistant \<Rightarrow> VoiceAssistant" where
  "processVoiceCommandResolved result s =
     (let s1 = s\<lparr>response := Some (CommandMessage (cr_message result)),
                  isProcessing := False,
                  spoken := spoken s @
                    [CommandMessage (if cr_summary result = [] then cr_message result
                                     else cr_summary result)]\<rparr>
      in if cr_success result \<and> testExact successWords (cr_message result) then
           (case cr_amount result of
              Some amount \<Rightarrow>
                if cr_type result = [] \<or> amount = 0 \<or> cr_category result = []
                then s1\<lparr>dispatched := dispatched s1 @ [DataUpdated]\<rparr>
                else s1\<lparr>dispatched := dispatched s1 @
                        [AddTransaction (cr_type result) amount (cr_category result)
                           (cr_description result),
                         DataUpdated]\<rparr>
            | None \<Rightarrow> s1\<lparr>dispatched := dispatched s1 @ [DataUpdated]\<rparr>)
         else s1)"

definition handleTranscript ::
  "(jsstring \<Rightarrow> int option) \<Rightarrow> jsstring \<Rightarrow> VoiceAssistant \<Rightarrow> VoiceAssistant" where
  "handleTranscript universalNumberParser transcript s =
     (if p_step (purchaseState s) \<noteq> p_idle then
        (case handlePurchaseQuickCommands transcript s of
           (True, s') \<Rightarrow> s'
         | (False, s') \<Rightarrow> handlePurchaseReply universalNumberParser transcript s')
      else if b_step (borrowState s) \<noteq> b_idle then
        (case handleQuickCommands transcript s of
           (True, s') \<Rightarrow> s'
         | (False, s') \<Rightarrow> handleBorrowReply universalNumberParser transcript s')
      else if test purchaseWords transcript then startPurchaseConversation s
      else if test borrowWords transcript then startBorrowConversation s
      else processVoiceCommand transcript s)"

section \<open>The confirmation panel\<close>

text \<open>
  While a conversation is at its confirm step and its edit copy exists, the panel with
  the three input fields, Save and Edit is rendered (lines 639 and 748). An input field
  changes only the edit copy; Edit goes back to the amount question and drops the copy.
\<close>

datatype field = NameField | AmountField | PaidField

definition borrowPanelShown :: "VoiceAssistant \<Rightarrow> bool" where
  "borrowPanelShown s = (b_step (borrowState s) = b_confirm \<and> borrowConfirmEdit s \<noteq> None)"

definition purchasePanelShown :: "VoiceAssistant \<Rightarrow> bool" where
  "purchasePanelShown s = (p_step (purchaseState s) = p_confirm \<and> purchaseConfirmEdit s \<noteq> None)"

fun setBorrowField :: "field \<Rightarrow> jsstring \<Rightarrow> BorrowConversationState \<Rightarrow> BorrowConversationState" where
  "setBorrowField NameField v e = e\<lparr>b_name := v\<rparr>"
| "setBorrowField AmountField v e = e\<lparr>b_amount := v\<rparr>"
| "setBorrowField PaidField v e = e\<lparr>b_paid := v\<rparr>"

fun setPurchaseField ::
  "field \<Rightarrow> jsstring \<Rightarrow> PurchaseConversationState \<Rightarrow> PurchaseConversationState" where
  "setPurchaseField NameField v e = e\<lparr>p_supplier := v\<rparr>"
| "setPurchaseField AmountField v e = e\<lparr>p_amount := v\<rparr>"
| "setPurchaseField PaidField v e = e\<lparr>p_paid := v\<rparr>"

definition editBorrowConfirm :: "field \<Rightarrow> jsstring \<Rightarrow> VoiceAssistant \<Rightarrow> VoiceAssistant" where
  "editBorrowConfirm f v s =
     (if borrowPanelShown s
      then s\<lparr>borrowConfirmEdit := map_option (setBorrowField f v) (borrowConfirmEdit s)\<rparr>
      else s)"

definition editPurchaseConfirm :: "field \<Rightarrow> jsstring \<Rightarrow> VoiceAssistant \<Rightarrow> VoiceAssistant" where
  "editPurchaseConfirm f v s =
     (if purchasePanelShown s
      then s\<lparr>purchaseConfirmEdit := map_option (setPurchaseField f v) (purchaseConfirmEdit s)\<rparr>
      else s)"

definition borrowEditClick :: "VoiceAssistant \<Rightarrow> VoiceAssistant" where
  "borrowEditClick s =
     (if borrowPanelShown s
      then s\<lparr>borrowState := (borrowState s)\<lparr>b_step := b_askAmount\<rparr>, borrowConfirmEdit := None\<rparr>
      else s)"

definition purchaseEditClick :: "VoiceAssistant \<Rightarrow> VoiceAssistant" where
  "purchaseEditClick s =
     (if purchasePanelShown s
      then s\<lparr>purchaseState := (purchaseState s)\<lparr>p_step := p_askAmount\<rparr>,
             purchaseConfirmEdit := None\<rparr>
      else s)"

text \<open>The \<^verbatim>\<open>disabled\<close> expressions of the two Save buttons (lines 659 to 666, 775 to 781).\<close>

definition borrowSaveDisabled :: "VoiceAssistant \<Rightarrow> bool" where
  "borrowSaveDisabled s =
     (case borrowConfirmEdit s of
        None \<Rightarrow> True
      | Some e \<Rightarrow>
          b_step (borrowState s) \<noteq> b_confirm \<or> b_name e = [] \<or> b_amount e = [] \<or>
          b_amount e = str ''0'' \<or> isProcessing s \<or> isSaving s)"

definition purchaseSaveDisabled :: "VoiceAssistant \<Rightarrow> bool" where
  "purchaseSaveDisabled s =
     (case purchaseConfirmEdit s of
        None \<Rightarrow> True
      | Some e \<Rightarrow>
          p_step (purchaseState s) \<noteq> p_confirm \<or>
          (p_supplier e = [] \<or> test unknownSupplierWords (p_supplier e)) \<or>
          (p_amount e = [] \<or> isNaN_Number (p_amount e)) \<or>
          isProcessing s \<or> isSaving s)"

text \<open>
  A click on Save (lines 667 to 736, 782 to 851); a click on a button that is not
  rendered or is disabled does nothing. The argument is what \<^verbatim>\<open>window.dispatchEvent\<close>
  returns: false when a listener of the request cancelled it. The click sets
  \<open>isSaving\<close>, registers the result listener and sends the request; a cancelled request
  is reported at once as a failed save.
\<close>

definition saveBorrowClick :: "bool \<Rightarrow> VoiceAssistant \<Rightarrow> VoiceAssistant" where
  "saveBorrowClick eventDispatched s =
     (if borrowPanelShown s \<and> \<not> borrowSaveDisabled s then
        (case borrowConfirmEdit s of
           None \<Rightarrow> s
         | Some e \<Rightarrow>
             (let s1 = dispatchEvent
                         (AddBorrow (trim (b_name e)) (b_amount e) (orZero (b_paid e)))
                         (s\<lparr>isSaving := True\<rparr>)
              in if eventDispatched then s1\<lparr>pendingBorrowSave := True\<rparr>
                 else (say BorrowSaveFailed s1)\<lparr>isSaving := False\<rparr>))
      else s)"

definition savePurchaseClick :: "bool \<Rightarrow> VoiceAssistant \<Rightarrow> VoiceAssistant" where
  "savePurchaseClick eventDispatched s =
     (if purchasePanelShown s \<and> \<not> purchaseSaveDisabled s then
        (case purchaseConfirmEdit s of
           None \<Rightarrow> s
         | Some e \<Rightarrow>
             (let s1 = dispatchEvent
                         (AddPurchase (trim (p_supplier e)) (p_amount e) (orZero (p_paid e)))
                         (s\<lparr>isSaving := True\<rparr>)
              in if eventDispatched then s1\<lparr>pendingPurchaseSave := True\<rparr>
                 else (say PurchaseSaveFailed s1)\<lparr>isSaving := False\<rparr>))
      else s)"

section \<open>Results of a commit\<close>

text \<open>
  \<^verbatim>\<open>e.detail?.error || 'Failed to add record.'\<close>: the reason, when one came and is not
  empty.
\<close>

definition reasonOf :: "save_result \<Rightarrow> jsstring option" where
  "reasonOf e = (case error e of None \<Rightarrow> None | Some r \<Rightarrow> if r = [] then None else Some r)"

text \<open>
  The effect of lines 541 to 557 listens for \<^verbatim>\<open>add-borrow-result\<close> unless the loan
  conversation is at \<open>done\<close>. There is no such effect for purchases.
\<close>

definition handleAddBorrowResult :: "save_result \<Rightarrow> VoiceAssistant \<Rightarrow> VoiceAssistant" where
  "handleAddBorrowResult e s =
     (if b_step (borrowState s) = b_done then s
      else if success e then
        (say RecordAdded s)
          \<lparr>borrowState := (borrowState s)\<lparr>b_step := b_done\<rparr>, borrowConfirmEdit := None\<rparr>
      else say (ErrorReason (reasonOf e)) s)"

text \<open>
  The listener of a Save click (\<^verbatim>\<open>handleSaveResult\<close>) removes itself and settles the
  promise the click waits for; what follows is the rest of the click handler: on
  success the step becomes \<open>done\<close> and the edit copy is dropped, on failure a fixed
  message is shown, and in both cases \<open>isSaving\<close> is cleared.
\<close>

definition borrowSaveSettled :: "save_result \<Rightarrow> VoiceAssistant \<Rightarrow> VoiceAssistant" where
  "borrowSaveSettled e s =
     (if pendingBorrowSave s then
        (let s1 = s\<lparr>pendingBorrowSave := False\<rparr> in
         if success e then
           (say BorrowRecordAdded
              (s1\<lparr>borrowState := (borrowState s1)\<lparr>b_step := b_done\<rparr>,
                  borrowConfirmEdit := None\<rparr>))\<lparr>isSaving := False\<rparr>
         else (say BorrowSaveFailed s1)\<lparr>isSaving := False\<rparr>)
      else s)"

definition purchaseSaveSettled :: "save_result \<Rightarrow> VoiceAssistant \<Rightarrow> VoiceAssistant" where
  "purchaseSaveSettled e s =
     (if pendingPurchaseSave s then
        (let s1 = s\<lparr>pendingPurchaseSave := False\<rparr> in
         if success e then
           (say PurchaseRecordAdded
              (s1\<lparr>purchaseState := (purchaseState s1)\<lparr>p_step := p_done\<rparr>,
                  purchaseConfirmEdit := None\<rparr>))\<lparr>isSaving := False\<rparr>
         else (say PurchaseSaveFailed s1)\<lparr>isSaving := False\<rparr>)
      else s)"

text \<open>
  An \<^verbatim>\<open>add-borrow-result\<close> event reaches the effect's listener during the dispatch and
  the waiting click handler right after it; an \<^verbatim>\<open>add-purchase-result\<close> event reaches
  only the waiting click handler.
\<close>

definition addBorrowResult :: "save_result \<Rightarrow> VoiceAssistant \<Rightarrow> VoiceAssistant" where
  "addBorrowResult e s = borrowSaveSettled e (handleAddBorrowResult e s)"

definition addPurchaseResult :: "save_result \<Rightarrow> VoiceAssistant \<Rightarrow> VoiceAssistant" where
  "addPurchaseResult e s = purchaseSaveSettled e s"

section \<open>Runs\<close>

text \<open>
  What can happen to the component, one thing at a time: each handler runs to its end
  on the state of the last render.
\<close>

datatype input =
    Transcript jsstring
  | EditBorrow field jsstring
  | EditPurchase field jsstring
  | SaveBorrowClick bool
  | SavePurchaseClick bool
  | BorrowEditClick
  | PurchaseEditClick
  | AddBorrowResult save_result
  | AddPurchaseResult save_result
  | CommandResolved command_result

fun react :: "(jsstring \<Rightarrow> int option) \<Rightarrow> VoiceAssistant \<Rightarrow> input \<Rightarrow> VoiceAssistant" where
  "react unp s (Transcript t) = handleTranscript unp t s"
| "react unp s (EditBorrow f v) = editBorrowConfirm f v s"
| "react unp s (EditPurchase f v) = editPurchaseConfirm f v s"
| "react unp s (SaveBorrowClick d) = saveBorrowClick d s"
| "react unp s (SavePurchaseClick d) = savePurchaseClick d s"
| "react unp s BorrowEditClick = borrowEditClick s"
| "react unp s PurchaseEditClick = purchaseEditClick s"
| "react unp s (AddBorrowResult e) = addBorrowResult e s"
| "react unp s (AddPurchaseResult e) = addPurchaseResult e s"
| "react unp s (CommandResolved r) = processVoiceCommandResolved r s"

definition run :: "(jsstring \<Rightarrow> int option) \<Rightarrow> VoiceAssistant \<Rightarrow> input list \<Rightarrow> VoiceAssistant" where
  "run unp s inputs = foldl (react unp) s inputs"

text \<open>
  For concrete runs: a stand-in for \<^verbatim>\<open>universalNumberParser\<close> that finds no number word,
  so that amounts are read from digits.
\<close>

definition noNumberWords :: "jsstring \<Rightarrow> int option" where
  "noNumberWords transcript = None"

section \<open>Two example conversations\<close>

text \<open>
  A loan of 500 from Ravi with 200 paid back, and a purchase of 900 from ABC with 100
  paid, each spoken up to the confirmation question; the states on their way and after
  a spoken yes; and two results a commit can come back with.
\<close>

definition loanTalk :: "input list" where
  "loanTalk = [Transcript (str ''borrow''), Transcript (str ''Ravi''),
               Transcript (str ''500''), Transcript (str ''200'')]"

definition purchaseTalk :: "input list" where
  "purchaseTalk = [Transcript (str ''purchase''), Transcript (str ''ABC''),
                   Transcript (str ''900''), Transcript (str ''100'')]"

definition ravi :: BorrowConversationState where
  "ravi = \<lparr>b_step = b_confirm, b_name = str ''Ravi'', b_amount = str ''500'',
           b_paid = str ''200''\<rparr>"

definition abc :: PurchaseConversationState where
  "abc = \<lparr>p_step = p_confirm, p_supplier = str ''ABC'', p_amount = str ''900'',
          p_paid = str ''100''\<rparr>"

definition loanAskingAmount :: VoiceAssistant where
  "loanAskingAmount = run noNumberWords initial (take 2 loanTalk)"

definition purchaseAskingAmount :: VoiceAssistant where
  "purchaseAskingAmount = run noNumberWords initial (take 2 purchaseTalk)"

definition loanAskingPaid :: VoiceAssistant where
  "loanAskingPaid = run noNumberWords initial (take 3 loanTalk)"

definition purchaseAskingPaid :: VoiceAssistant where
  "purchaseAskingPaid = run noNumberWords initial (take 3 purchaseTalk)"

definition loanConfirming :: VoiceAssistant where
  "loanConfirming = run noNumberWords initial loanTalk"

definition purchaseConfirming :: VoiceAssistant where
  "purchaseConfirming = run noNumberWords initial purchaseTalk"

definition loanDone :: VoiceAssistant where
  "loanDone = run noNumberWords loanConfirming [Transcript (str ''yes'')]"

definition purchaseDone :: VoiceAssistant where
  "purchaseDone = run noNumberWords purchaseConfirming [Transcript (str ''yes'')]"

definition dbDown :: save_result where
  "dbDown = \<lparr>success = False, error = Some (str ''db down'')\<rparr>"

definition saved :: save_result where
  "saved = \<lparr>success = True, error = None\<rparr>"

definition venda :: jsstring where
  \<comment> \<open>the Malayalam word that is in both the cancel and the negative vocabulary\<close>
  "venda = [0x0D35, 0x0D47, 0x0D23, 0x0D4D, 0x0D1F]"

section \<open>Evaluating the examples\<close>

lemmas vocab =
  test_def affirmative_def negative_def resetWords_def cancelWords_def purchaseWords_def
  borrowWords_def unknownSupplierWords_def str_def lower_def

lemmas steps =
  run_def handleTranscript_def handleQuickCommands_def handlePurchaseQuickCommands_def
  handleBorrowReply_def handlePurchaseReply_def startBorrowConversation_def
  startPurchaseConversation_def resetBorrowConversation_def resetPurchaseConversation_def
  processVoiceCommand_def say_def dispatchEvent_def orZero_def initial_def emptyBorrow_def
  emptyPurchase_def Let_def

lemmas numbers =
  readAmount_def readPaid_def firstDigitRun_def parseInt_def notDigit_def isDigit_def
  noNumberWords_def

lemmas panel =
  borrowPanelShown_def purchasePanelShown_def editBorrowConfirm_def editPurchaseConfirm_def
  borrowEditClick_def purchaseEditClick_def borrowSaveDisabled_def purchaseSaveDisabled_def
  saveBorrowClick_def savePurchaseClick_def reasonOf_def handleAddBorrowResult_def
  borrowSaveSettled_def purchaseSaveSettled_def addBorrowResult_def addPurchaseResult_def
  trim_def isWhiteSpace_def isNaN_Number_def nonDecimal_def unsignedDecimal_def
  exponentPart_def decimalDigits_def radixDigit_def

lemma loanAskingAmount_eq:
  "loanAskingAmount =
     initial\<lparr>borrowState := ravi\<lparr>b_step := b_askAmount, b_amount := [], b_paid := []\<rparr>,
       response := Some (AskBorrowAmount (str ''Ravi'')),
       spoken := [AskBorrowName, AskBorrowAmount (str ''Ravi'')]\<rparr>"
  by (simp add: loanAskingAmount_def loanTalk_def ravi_def steps vocab numbers)

lemma purchaseAskingAmount_eq:
  "purchaseAskingAmount =
     initial\<lparr>purchaseState := abc\<lparr>p_step := p_askAmount, p_amount := [], p_paid := []\<rparr>,
       response := Some (AskPurchaseAmount (str ''ABC'')),
       spoken := [AskSupplier, AskPurchaseAmount (str ''ABC'')]\<rparr>"
  by (simp add: purchaseAskingAmount_def purchaseTalk_def abc_def steps vocab numbers)

lemma loanAskingPaid_eq:
  "loanAskingPaid =
     initial\<lparr>borrowState := ravi\<lparr>b_step := b_askPaid, b_paid := []\<rparr>,
       response := Some AskBorrowPaid,
       spoken := [AskBorrowName, AskBorrowAmount (str ''Ravi''), AskBorrowPaid]\<rparr>"
  by (simp add: loanAskingPaid_def loanTalk_def ravi_def steps vocab numbers)

lemma purchaseAskingPaid_eq:
  "purchaseAskingPaid =
     initial\<lparr>purchaseState := abc\<lparr>p_step := p_askPaid, p_paid := []\<rparr>,
       response := Some AskPurchasePaid,
       spoken := [AskSupplier, AskPurchaseAmount (str ''ABC''), AskPurchasePaid]\<rparr>"
  by (simp add: purchaseAskingPaid_def purchaseTalk_def abc_def steps vocab numbers)

lemma loanConfirming_eq:
  "loanConfirming =
     initial\<lparr>borrowState := ravi, borrowConfirmEdit := Some ravi,
       response := Some (ConfirmBorrow (str ''500'') (str ''Ravi'') (str ''200'')),
       spoken := [AskBorrowName, AskBorrowAmount (str ''Ravi''), AskBorrowPaid,
                  ConfirmBorrow (str ''500'') (str ''Ravi'') (str ''200'')]\<rparr>"
  by (simp add: loanConfirming_def loanTalk_def ravi_def steps vocab numbers)

lemma purchaseConfirming_eq:
  "purchaseConfirming =
     initial\<lparr>purchaseState := abc, purchaseConfirmEdit := Some abc,
       response := Some (ConfirmPurchase (str ''900'') (str ''ABC'') (str ''100'')),
       spoken := [AskSupplier, AskPurchaseAmount (str ''ABC''), AskPurchasePaid,
                  ConfirmPurchase (str ''900'') (str ''ABC'') (str ''100'')]\<rparr>"
  by (simp add: purchaseConfirming_def purchaseTalk_def abc_def steps vocab numbers)

lemma loanDone_eq:
  "loanDone =
     loanConfirming\<lparr>borrowState := ravi\<lparr>b_step := b_done\<rparr>, borrowConfirmEdit := None,
       response := Some RecordAdded, spoken := spoken loanConfirming @ [RecordAdded],
       dispatched := [AddBorrow (str ''Ravi'') (str ''500'') (str ''200''), DataUpdated]\<rparr>"
  by (simp add: loanDone_def loanConfirming_eq ravi_def steps vocab)

lemma purchaseDone_eq:
  "purchaseDone =
     purchaseConfirming\<lparr>purchaseState := abc\<lparr>p_step := p_done\<rparr>,
       purchaseConfirmEdit := None, response := Some PurchaseRecordAdded,
       spoken := spoken purchaseConfirming @ [PurchaseRecordAdded],
       dispatched := [AddPurchase (str ''ABC'') (str ''900'') (str ''100''), DataUpdated]\<rparr>"
  by (simp add: purchaseDone_def purchaseConfirming_eq abc_def steps vocab)

section \<open>Digit runs\<close>

lemma digitRuns_Nil: "dropWhile notDigit t = [] \<Longrightarrow> digitRuns t = []"
  using digitRuns.simps [of t] by (simp only: list.case)

lemma digitRuns_Cons:
  "dropWhile notDigit t = d # ds \<Longrightarrow>
   digitRuns t = takeWhile isDigit (d # ds) # digitRuns (dropWhile isDigit (d # ds))"
  using digitRuns.simps [of t] by (simp only: list.case)

text \<open>What \<^verbatim>\<open>match(/\d+/)\<close> finds is the first of the digit runs.\<close>

lemma firstDigitRun_in_digitRuns:
  assumes "firstDigitRun t = Some r"
  shows "r \<in> set (digitRuns t)"
proof (cases "dropWhile notDigit t")
  case Nil
  with assms show ?thesis by (simp only: firstDigitRun_def list.case option.distinct)
next
  case (Cons d ds)
  with assms have "r = takeWhile isDigit (d # ds)"
    by (simp only: firstDigitRun_def list.case option.inject)
  with digitRuns_Cons [OF Cons] show ?thesis by (simp only: list.set insertI1)
qed

lemma firstDigitRun_None_iff: "firstDigitRun t = None \<longleftrightarrow> digitRuns t = []"
proof (cases "dropWhile notDigit t")
  case Nil
  have "firstDigitRun t = None"
    unfolding firstDigitRun_def Nil by simp
  with digitRuns_Nil [OF Nil] show ?thesis by simp
next
  case (Cons d ds)
  have "firstDigitRun t \<noteq> None"
    unfolding firstDigitRun_def Cons by simp
  with digitRuns_Cons [OF Cons] show ?thesis by simp
qed

lemma digitRuns_zero_rupees: "digitRuns (str ''0 rupees'') = [str ''0'']"
  by (simp add: digitRuns.simps str_def notDigit_def isDigit_def)

lemma digitRuns_nothing: "digitRuns (str ''nothing yet'') = []"
  by (simp add: digitRuns.simps str_def notDigit_def isDigit_def)

section \<open>The amount questions\<close>

lemma readAmount_None:
  assumes "\<forall>v. unp t = Some v \<longrightarrow> v \<le> 0"
    and "list_all (\<lambda>r. parseInt r = 0) (digitRuns t)"
  shows "readAmount unp t = None"
proof -
  have d: "firstDigitRun t = Some r \<Longrightarrow> parseInt r = 0" for r
    using assms(2) firstDigitRun_in_digitRuns [of t r] by (simp add: list_all_iff)
  show ?thesis
    using assms(1) d
    by (cases "unp t"; cases "firstDigitRun t") (auto simp: readAmount_def)
qed

text \<open>
  C4. At the amount question of either flow, a reply in which the number parser finds
  no positive value and whose digit runs all parse to zero (there may be none) is not
  understood: the answer is the clarifying request to say a clear number, shown with
  the reply quoted and spoken without it, and nothing else of the state changes; the
  step stays at the amount question and no amount is stored.
\<close>

theorem amount_reply_not_understood:
  assumes "\<forall>v. unp t = Some v \<longrightarrow> v \<le> 0"
    and "list_all (\<lambda>r. parseInt r = 0) (digitRuns t)"
  shows "(b_step (borrowState s) = b_askAmount \<longrightarrow>
            handleBorrowReply unp t s =
              s\<lparr>response := Some (AmountNotUnderstood t),
                spoken := spoken s @ [AmountNotUnderstoodSpoken]\<rparr>) \<and>
         (p_step (purchaseState s) = p_askAmount \<longrightarrow>
            handlePurchaseReply unp t s =
              s\<lparr>response := Some (AmountNotUnderstood t),
                spoken := spoken s @ [AmountNotUnderstoodSpoken]\<rparr>)"
  using readAmount_None [of unp t, OF assms]
  by (simp add: handleBorrowReply_def handlePurchaseReply_def Let_def)

theorem amount_reply_not_understood_witness:
  "b_step (borrowState loanAskingAmount) = b_askAmount \<and>
   p_step (purchaseState purchaseAskingAmount) = p_askAmount \<and>
   noNumberWords (str ''0 rupees'') = None \<and>
   digitRuns (str ''0 rupees'') = [str ''0''] \<and>
   handleBorrowReply noNumberWords (str ''0 rupees'') loanAskingAmount =
     loanAskingAmount\<lparr>response := Some (AmountNotUnderstood (str ''0 rupees'')),
       spoken := spoken loanAskingAmount @ [AmountNotUnderstoodSpoken]\<rparr> \<and>
   handlePurchaseReply noNumberWords (str ''0 rupees'') purchaseAskingAmount =
     purchaseAskingAmount\<lparr>response := Some (AmountNotUnderstood (str ''0 rupees'')),
       spoken := spoken purchaseAskingAmount @ [AmountNotUnderstoodSpoken]\<rparr>"
proof -
  have h1: "\<forall>v. noNumberWords (str ''0 rupees'') = Some v \<longrightarrow> v \<le> 0"
    by (simp add: noNumberWords_def)
  have h2: "list_all (\<lambda>r. parseInt r = 0) (digitRuns (str ''0 rupees''))"
    unfolding digitRuns_zero_rupees by (simp add: parseInt_def str_def)
  have b: "b_step (borrowState loanAskingAmount) = b_askAmount"
    by (simp add: loanAskingAmount_eq ravi_def)
  have p: "p_step (purchaseState purchaseAskingAmount) = p_askAmount"
    by (simp add: purchaseAskingAmount_eq abc_def)
  from amount_reply_not_understood
      [of noNumberWords "str ''0 rupees''" loanAskingAmount, OF h1 h2]
    amount_reply_not_understood
      [of noNumberWords "str ''0 rupees''" purchaseAskingAmount, OF h1 h2]
    b p
  show ?thesis by (simp add: noNumberWords_def digitRuns_zero_rupees)
qed

lemma readPaid_default:
  "unp t = None \<Longrightarrow> digitRuns t = [] \<Longrightarrow> readPaid unp t = str ''0''"
  using firstDigitRun_None_iff [of t] by (simp add: readPaid_def)

text \<open>
  C5. At the paid-amount question of either flow, a reply in which the number parser
  finds nothing and which has no digit run is not asked again: 0 is stored as the paid
  amount, the step becomes confirm, the edit copy is set to the new slots, and the
  confirmation question is put.
\<close>

theorem paid_reply_defaults_to_zero:
  assumes "unp t = None" and "digitRuns t = []"
  shows "(b_step (borrowState s) = b_askPaid \<longrightarrow>
            handleBorrowReply unp t s =
              say (ConfirmBorrow (b_amount (borrowState s)) (b_name (borrowState s)) (str ''0''))
                (s\<lparr>borrowState := (borrowState s)\<lparr>b_paid := str ''0'', b_step := b_confirm\<rparr>,
                   borrowConfirmEdit :=
                     Some ((borrowState s)\<lparr>b_paid := str ''0'', b_step := b_confirm\<rparr>)\<rparr>)) \<and>
         (p_step (purchaseState s) = p_askPaid \<longrightarrow>
            handlePurchaseReply unp t s =
              say (ConfirmPurchase (p_amount (purchaseState s)) (p_supplier (purchaseState s))
                     (str ''0''))
                (s\<lparr>purchaseState := (purchaseState s)\<lparr>p_paid := str ''0'', p_step := p_confirm\<rparr>,
                   purchaseConfirmEdit :=
                     Some ((purchaseState s)\<lparr>p_paid := str ''0'', p_step := p_confirm\<rparr>)\<rparr>))"
  using readPaid_default [of unp t, OF assms]
  by (simp add: handleBorrowReply_def handlePurchaseReply_def Let_def)

theorem paid_reply_defaults_to_zero_witness:
  "b_step (borrowState loanAskingPaid) = b_askPaid \<and>
   p_step (purchaseState purchaseAskingPaid) = p_askPaid \<and>
   noNumberWords (str ''nothing yet'') = None \<and>
   digitRuns (str ''nothing yet'') = [] \<and>
   borrowState (handleBorrowReply noNumberWords (str ''nothing yet'') loanAskingPaid) =
     ravi\<lparr>b_paid := str ''0''\<rparr> \<and>
   purchaseState (handlePurchaseReply noNumberWords (str ''nothing yet'') purchaseAskingPaid) =
     abc\<lparr>p_paid := str ''0''\<rparr>"
proof -
  have h1: "noNumberWords (str ''nothing yet'') = None"
    by (simp add: noNumberWords_def)
  have b: "b_step (borrowState loanAskingPaid) = b_askPaid"
    by (simp add: loanAskingPaid_eq ravi_def)
  have p: "p_step (purchaseState purchaseAskingPaid) = p_askPaid"
    by (simp add: purchaseAskingPaid_eq abc_def)
  from paid_reply_defaults_to_zero
      [of noNumberWords "str ''nothing yet''" loanAskingPaid, OF h1 digitRuns_nothing]
    paid_reply_defaults_to_zero
      [of noNumberWords "str ''nothing yet''" purchaseAskingPaid, OF h1 digitRuns_nothing]
    b p
  show ?thesis
    by (simp add: h1 digitRuns_nothing say_def loanAskingPaid_eq purchaseAskingPaid_eq
        ravi_def abc_def)
qed

section \<open>Replies to the confirmation question\<close>

text \<open>
  A transcript reaches the reply handler of the active conversation when it matches
  neither quick command.
\<close>

lemma transcript_reaches_purchase_reply:
  "p_step (purchaseState s) \<noteq> p_idle \<Longrightarrow> \<not> test resetWords t \<Longrightarrow> \<not> test cancelWords t \<Longrightarrow>
   handleTranscript unp t s = handlePurchaseReply unp t s"
  by (simp add: handleTranscript_def handlePurchaseQuickCommands_def)

lemma transcript_reaches_borrow_reply:
  "p_step (purchaseState s) = p_idle \<Longrightarrow> b_step (borrowState s) \<noteq> b_idle \<Longrightarrow>
   \<not> test resetWords t \<Longrightarrow> \<not> test cancelWords t \<Longrightarrow>
   handleTranscript unp t s = handleBorrowReply unp t s"
  by (simp add: handleTranscript_def handleQuickCommands_def)

text \<open>
  Two transcripts of the negative vocabulary that do not lead back to the amount
  question. The affirmative vocabulary is tested before the negative one, so ``no, save
  it'' is a yes and commits the loan. The quick commands are tested before both, and
  the Malayalam word for no is also a cancel word: it ends the conversation.
\<close>

theorem negative_reply_counterexample:
  "b_step (borrowState loanConfirming) = b_confirm \<and>
   test negative (str ''no, save it'') \<and>
   b_step (borrowState (handleTranscript noNumberWords (str ''no, save it'') loanConfirming)) =
     b_done \<and>
   dispatched (handleTranscript noNumberWords (str ''no, save it'') loanConfirming) =
     [AddBorrow (str ''Ravi'') (str ''500'') (str ''200''), DataUpdated] \<and>
   test negative venda \<and>
   borrowState (handleTranscript noNumberWords venda loanConfirming) = emptyBorrow"
  by (simp add: loanConfirming_eq ravi_def venda_def steps vocab)

text \<open>
  C6, as amended. At the confirm step of either flow, a transcript that matches the
  negative vocabulary and neither the affirmative vocabulary nor a quick command (reset
  or cancel) takes the conversation back to the amount question: only the step of the
  slots changes (name or supplier, amount and paid amount stay as stored), the edit
  copy, with whatever was typed into it, is dropped, and the question for the amount is
  put again. A loan conversation is reached only while the purchase conversation is
  idle.
\<close>

theorem negative_reply_returns_to_amount:
  assumes "test negative t" and "\<not> test affirmative t"
    and "\<not> test resetWords t" and "\<not> test cancelWords t"
  shows "(p_step (purchaseState s) = p_idle \<and> b_step (borrowState s) = b_confirm \<longrightarrow>
            handleTranscript unp t s =
              say ChangeBorrowAmount
                (s\<lparr>borrowState := (borrowState s)\<lparr>b_step := b_askAmount\<rparr>,
                   borrowConfirmEdit := None\<rparr>)) \<and>
         (p_step (purchaseState s) = p_confirm \<longrightarrow>
            handleTranscript unp t s =
              say ChangePurchaseAmount
                (s\<lparr>purchaseState := (purchaseState s)\<lparr>p_step := p_askAmount\<rparr>,
                   purchaseConfirmEdit := None\<rparr>))"
proof (intro conjI impI)
  assume a: "p_step (purchaseState s) = p_idle \<and> b_step (borrowState s) = b_confirm"
  then have "handleTranscript unp t s = handleBorrowReply unp t s"
    using assms(3,4) by (simp add: transcript_reaches_borrow_reply)
  with a assms(1,2)
  show "handleTranscript unp t s =
          say ChangeBorrowAmount
            (s\<lparr>borrowState := (borrowState s)\<lparr>b_step := b_askAmount\<rparr>,
               borrowConfirmEdit := None\<rparr>)"
    by (simp add: handleBorrowReply_def)
next
  assume a: "p_step (purchaseState s) = p_confirm"
  then have "handleTranscript unp t s = handlePurchaseReply unp t s"
    using assms(3,4) by (simp add: transcript_reaches_purchase_reply)
  with a assms(1,2)
  show "handleTranscript unp t s =
          say ChangePurchaseAmount
            (s\<lparr>purchaseState := (purchaseState s)\<lparr>p_step := p_askAmount\<rparr>,
               purchaseConfirmEdit := None\<rparr>)"
    by (simp add: handlePurchaseReply_def)
qed

lemma test_change:
  "test negative (str ''change it'') \<and> \<not> test affirmative (str ''change it'') \<and>
   \<not> test resetWords (str ''change it'') \<and> \<not> test cancelWords (str ''change it'')"
  by (simp add: vocab)

theorem negative_reply_returns_to_amount_witness:
  "test negative (str ''change it'') \<and> \<not> test affirmative (str ''change it'') \<and>
   \<not> test resetWords (str ''change it'') \<and> \<not> test cancelWords (str ''change it'') \<and>
   p_step (purchaseState (editBorrowConfirm NameField (str ''Rajan'') loanConfirming)) = p_idle \<and>
   b_step (borrowState (editBorrowConfirm NameField (str ''Rajan'') loanConfirming)) = b_confirm \<and>
   borrowConfirmEdit (editBorrowConfirm NameField (str ''Rajan'') loanConfirming) =
     Some (ravi\<lparr>b_name := str ''Rajan''\<rparr>) \<and>
   borrowState (handleTranscript noNumberWords (str ''change it'')
      (editBorrowConfirm NameField (str ''Rajan'') loanConfirming)) = ravi\<lparr>b_step := b_askAmount\<rparr> \<and>
   borrowConfirmEdit (handleTranscript noNumberWords (str ''change it'')
      (editBorrowConfirm NameField (str ''Rajan'') loanConfirming)) = None \<and>
   response (handleTranscript noNumberWords (str ''change it'')
      (editBorrowConfirm NameField (str ''Rajan'') loanConfirming)) = Some ChangeBorrowAmount \<and>
   p_step (purchaseState purchaseConfirming) = p_confirm \<and>
   purchaseState (handleTranscript noNumberWords (str ''change it'') purchaseConfirming) =
     abc\<lparr>p_step := p_askAmount\<rparr> \<and>
   purchaseConfirmEdit (handleTranscript noNumberWords (str ''change it'') purchaseConfirming) =
     None \<and>
   response (handleTranscript noNumberWords (str ''change it'') purchaseConfirming) =
     Some ChangePurchaseAmount"
proof -
  have b: "p_step (purchaseState (editBorrowConfirm NameField (str ''Rajan'') loanConfirming)) =
             p_idle \<and>
           b_step (borrowState (editBorrowConfirm NameField (str ''Rajan'') loanConfirming)) =
             b_confirm"
    by (simp add: editBorrowConfirm_def borrowPanelShown_def loanConfirming_eq ravi_def
        initial_def emptyPurchase_def)
  have p: "p_step (purchaseState purchaseConfirming) = p_confirm"
    by (simp add: purchaseConfirming_eq abc_def)
  have t1: "test negative (str ''change it'')" and t2: "\<not> test affirmative (str ''change it'')"
    and t3: "\<not> test resetWords (str ''change it'')"
    and t4: "\<not> test cancelWords (str ''change it'')"
    using test_change by simp_all
  from negative_reply_returns_to_amount
      [of "str ''change it''" "editBorrowConfirm NameField (str ''Rajan'') loanConfirming"
          noNumberWords, OF t1 t2 t3 t4]
    negative_reply_returns_to_amount
      [of "str ''change it''" purchaseConfirming noNumberWords, OF t1 t2 t3 t4]
    b p test_change
  show ?thesis
    by (simp add: editBorrowConfirm_def borrowPanelShown_def say_def loanConfirming_eq
        purchaseConfirming_eq ravi_def abc_def)
qed

section \<open>The done step\<close>

text \<open>
  A conversation at done is not idle, so transcripts are still routed to it, and its
  quick commands are tested before anything else: ``cancel'' takes a finished loan
  conversation to idle.
\<close>

theorem done_counterexample:
  "b_step (borrowState loanDone) = b_done \<and>
   handleTranscript noNumberWords (str ''cancel'') loanDone \<noteq> loanDone \<and>
   borrowState (handleTranscript noNumberWords (str ''cancel'') loanDone) = emptyBorrow \<and>
   response (handleTranscript noNumberWords (str ''cancel'') loanDone) = Some Cancelled"
  by (simp add: loanDone_eq loanConfirming_eq ravi_def steps vocab)

text \<open>
  C8, as amended. A conversation at done ignores every transcript that is not a quick
  command: the whole state stays as it is, nothing is shown, spoken or sent, and no other
  conversation starts. The quick commands are still accepted at done: reset empties the
  slots and asks the first question again, cancel (when reset does not match) empties
  the slots and goes to idle. A loan conversation is reached only while the purchase
  conversation is idle.
\<close>

theorem done_ignores_replies_but_not_quick_commands:
  "(p_step (purchaseState s) = p_done \<and> \<not> test resetWords t \<and> \<not> test cancelWords t \<longrightarrow>
      handleTranscript unp t s = s) \<and>
   (p_step (purchaseState s) = p_idle \<and> b_step (borrowState s) = b_done \<and>
      \<not> test resetWords t \<and> \<not> test cancelWords t \<longrightarrow>
      handleTranscript unp t s = s) \<and>
   (p_step (purchaseState s) = p_done \<and> test resetWords t \<longrightarrow>
      purchaseState (handleTranscript unp t s) = emptyPurchase\<lparr>p_step := p_askSupplier\<rparr>) \<and>
   (p_step (purchaseState s) = p_done \<and> \<not> test resetWords t \<and> test cancelWords t \<longrightarrow>
      purchaseState (handleTranscript unp t s) = emptyPurchase) \<and>
   (p_step (purchaseState s) = p_idle \<and> b_step (borrowState s) = b_done \<and> test resetWords t \<longrightarrow>
      borrowState (handleTranscript unp t s) = emptyBorrow\<lparr>b_step := b_askName\<rparr>) \<and>
   (p_step (purchaseState s) = p_idle \<and> b_step (borrowState s) = b_done \<and>
      \<not> test resetWords t \<and> test cancelWords t \<longrightarrow>
      borrowState (handleTranscript unp t s) = emptyBorrow)"
  by (simp add: handleTranscript_def handleQuickCommands_def handlePurchaseQuickCommands_def
      handleBorrowReply_def handlePurchaseReply_def say_def resetBorrowConversation_def
      resetPurchaseConversation_def)

lemma test_quick:
  "\<not> test resetWords (str ''yes'') \<and> \<not> test cancelWords (str ''yes'') \<and>
   test resetWords (str ''reset'') \<and>
   \<not> test resetWords (str ''cancel'') \<and> test cancelWords (str ''cancel'')"
  by (simp add: vocab)

lemma done_steps:
  "p_step (purchaseState purchaseDone) = p_done \<and>
   p_step (purchaseState loanDone) = p_idle \<and> b_step (borrowState loanDone) = b_done"
  by (simp add: loanDone_eq purchaseDone_eq loanConfirming_eq purchaseConfirming_eq ravi_def
      abc_def initial_def emptyPurchase_def)

theorem done_ignores_replies_but_not_quick_commands_witness:
  "p_step (purchaseState purchaseDone) = p_done \<and>
   p_step (purchaseState loanDone) = p_idle \<and> b_step (borrowState loanDone) = b_done \<and>
   \<not> test resetWords (str ''yes'') \<and> \<not> test cancelWords (str ''yes'') \<and>
   test resetWords (str ''reset'') \<and>
   \<not> test resetWords (str ''cancel'') \<and> test cancelWords (str ''cancel'') \<and>
   handleTranscript noNumberWords (str ''yes'') purchaseDone = purchaseDone \<and>
   handleTranscript noNumberWords (str ''yes'') loanDone = loanDone \<and>
   purchaseState (handleTranscript noNumberWords (str ''reset'') purchaseDone) =
     emptyPurchase\<lparr>p_step := p_askSupplier\<rparr> \<and>
   purchaseState (handleTranscript noNumberWords (str ''cancel'') purchaseDone) = emptyPurchase \<and>
   borrowState (handleTranscript noNumberWords (str ''reset'') loanDone) =
     emptyBorrow\<lparr>b_step := b_askName\<rparr> \<and>
   borrowState (handleTranscript noNumberWords (str ''cancel'') loanDone) = emptyBorrow"
  using done_ignores_replies_but_not_quick_commands [of purchaseDone "str ''yes''" noNumberWords]
    done_ignores_replies_but_not_quick_commands [of loanDone "str ''yes''" noNumberWords]
    done_ignores_replies_but_not_quick_commands [of purchaseDone "str ''reset''" noNumberWords]
    done_ignores_replies_but_not_quick_commands [of purchaseDone "str ''cancel''" noNumberWords]
    done_ignores_replies_but_not_quick_commands [of loanDone "str ''reset''" noNumberWords]
    done_ignores_replies_but_not_quick_commands [of loanDone "str ''cancel''" noNumberWords]
    test_quick done_steps
  by simp

section \<open>Late results\<close>

text \<open>
  The listener for loan results steps aside only at done. A loan saved with the Save
  button and then cancelled is idle; when the result of the save then arrives, the idle
  conversation is taken to done.
\<close>

theorem late_result_counterexample:
  "borrowState (run noNumberWords loanConfirming [SaveBorrowClick True, Transcript (str ''cancel'')])
     = emptyBorrow \<and>
   borrowState (run noNumberWords loanConfirming
      [SaveBorrowClick True, Transcript (str ''cancel''), AddBorrowResult saved])
     = emptyBorrow\<lparr>b_step := b_done\<rparr> \<and>
   response (run noNumberWords loanConfirming
      [SaveBorrowClick True, Transcript (str ''cancel''), AddBorrowResult saved])
     = Some BorrowRecordAdded"
  by (simp add: loanConfirming_eq ravi_def saved_def steps vocab panel numbers)

text \<open>
  C9, as amended. A result that arrives when the conversation is already at done never
  changes its slots or its step, and when no Save click is waiting for a result it
  changes nothing at all.
\<close>

theorem late_result_ignored_when_done:
  "(b_step (borrowState s) = b_done \<longrightarrow>
      borrowState (addBorrowResult r s) = borrowState s \<and>
      (\<not> pendingBorrowSave s \<longrightarrow> addBorrowResult r s = s)) \<and>
   (p_step (purchaseState s) = p_done \<longrightarrow>
      purchaseState (addPurchaseResult r s) = purchaseState s \<and>
      (\<not> pendingPurchaseSave s \<longrightarrow> addPurchaseResult r s = s))"
  by (simp add: addBorrowResult_def addPurchaseResult_def handleAddBorrowResult_def
      borrowSaveSettled_def purchaseSaveSettled_def say_def Let_def)

lemma done_not_pending:
  "\<not> pendingBorrowSave loanDone \<and> \<not> pendingPurchaseSave purchaseDone"
  by (simp add: loanDone_eq purchaseDone_eq loanConfirming_eq purchaseConfirming_eq initial_def)

theorem late_result_ignored_when_done_witness:
  "b_step (borrowState loanDone) = b_done \<and> \<not> pendingBorrowSave loanDone \<and>
   addBorrowResult saved loanDone = loanDone \<and>
   p_step (purchaseState purchaseDone) = p_done \<and> \<not> pendingPurchaseSave purchaseDone \<and>
   addPurchaseResult saved purchaseDone = purchaseDone"
  using late_result_ignored_when_done [of loanDone saved]
    late_result_ignored_when_done [of purchaseDone saved] done_steps done_not_pending
  by simp

section \<open>Cancel at the confirmation question\<close>

text \<open>
  Reset is the first quick command tested: a transcript with a cancel word and a reset
  word restarts the conversation at its first question instead of ending it.
\<close>

theorem cancel_counterexample:
  "test cancelWords (str ''stop, reset it'') \<and>
   p_step (purchaseState loanConfirming) = p_idle \<and>
   b_step (borrowState loanConfirming) = b_confirm \<and>
   borrowState (handleTranscript noNumberWords (str ''stop, reset it'') loanConfirming) =
     emptyBorrow\<lparr>b_step := b_askName\<rparr>"
  by (simp add: loanConfirming_eq ravi_def steps vocab)

text \<open>
  C10, as amended. At the confirm step, a transcript that matches the cancel vocabulary
  and not the reset vocabulary is consumed as the cancel quick command: the slots are
  emptied, the step is idle, ``Cancelled'' is shown and spoken, and nothing else
  changes; the reply handler with its negative branch is never reached. This holds for
  the Malayalam word that is in both the cancel and the negative vocabulary.
\<close>

theorem cancel_precedes_negative_reply:
  assumes "test cancelWords t" and "\<not> test resetWords t"
  shows "(p_step (purchaseState s) = p_idle \<and> b_step (borrowState s) = b_confirm \<longrightarrow>
            handleTranscript unp t s = say Cancelled (s\<lparr>borrowState := emptyBorrow\<rparr>)) \<and>
         (p_step (purchaseState s) = p_confirm \<longrightarrow>
            handleTranscript unp t s = say Cancelled (s\<lparr>purchaseState := emptyPurchase\<rparr>))"
  using assms
  by (simp add: handleTranscript_def handleQuickCommands_def handlePurchaseQuickCommands_def
      resetBorrowConversation_def resetPurchaseConversation_def)

lemma test_venda:
  "test cancelWords venda \<and> \<not> test resetWords venda \<and> test negative venda \<and>
   \<not> test affirmative venda"
  by (simp add: venda_def vocab)

lemma confirm_steps:
  "p_step (purchaseState loanConfirming) = p_idle \<and>
   b_step (borrowState loanConfirming) = b_confirm \<and>
   p_step (purchaseState purchaseConfirming) = p_confirm"
  by (simp add: loanConfirming_eq purchaseConfirming_eq ravi_def abc_def initial_def
      emptyPurchase_def)

theorem cancel_precedes_negative_reply_witness:
  "test cancelWords venda \<and> \<not> test resetWords venda \<and> test negative venda \<and>
   p_step (purchaseState loanConfirming) = p_idle \<and>
   b_step (borrowState loanConfirming) = b_confirm \<and>
   p_step (purchaseState purchaseConfirming) = p_confirm \<and>
   handleTranscript noNumberWords venda loanConfirming =
     say Cancelled (loanConfirming\<lparr>borrowState := emptyBorrow\<rparr>) \<and>
   handleTranscript noNumberWords venda purchaseConfirming =
     say Cancelled (purchaseConfirming\<lparr>purchaseState := emptyPurchase\<rparr>)"
  using cancel_precedes_negative_reply [of venda loanConfirming noNumberWords]
    cancel_precedes_negative_reply [of venda purchaseConfirming noNumberWords]
    test_venda confirm_steps
  by simp

section \<open>Failed commits\<close>

text \<open>
  Two commits that fail. The loan confirmed by voice is at done when the failure
  arrives, and stays there. The purchase saved with the button stays at confirm, but
  what is shown and spoken is the fixed text ``Failed to save purchase. Please try
  again.'', not the reason that came with the result.
\<close>

theorem failed_commit_counterexample:
  "b_step (borrowState loanConfirming) = b_confirm \<and>
   b_step (borrowState
      (run noNumberWords loanConfirming [Transcript (str ''yes''), AddBorrowResult dbDown])) = b_done \<and>
   spoken (run noNumberWords purchaseConfirming [SavePurchaseClick True, AddPurchaseResult dbDown]) =
     spoken purchaseConfirming @ [PurchaseSaveFailed] \<and>
   response (run noNumberWords purchaseConfirming [SavePurchaseClick True, AddPurchaseResult dbDown]) =
     Some PurchaseSaveFailed"
  by (simp add: loanConfirming_eq purchaseConfirming_eq ravi_def abc_def dbDown_def steps vocab
      panel numbers)

lemma failed_borrow_result:
  "\<not> success r \<Longrightarrow> pendingBorrowSave s \<Longrightarrow> b_step (borrowState s) = b_confirm \<Longrightarrow>
   addBorrowResult r s =
     s\<lparr>response := Some BorrowSaveFailed,
       spoken := spoken s @ [ErrorReason (reasonOf r), BorrowSaveFailed],
       isSaving := False, pendingBorrowSave := False\<rparr>"
  by (simp add: addBorrowResult_def handleAddBorrowResult_def borrowSaveSettled_def say_def)

lemma failed_purchase_result:
  "\<not> success r \<Longrightarrow> pendingPurchaseSave s \<Longrightarrow>
   addPurchaseResult r s =
     s\<lparr>response := Some PurchaseSaveFailed, spoken := spoken s @ [PurchaseSaveFailed],
       isSaving := False, pendingPurchaseSave := False\<rparr>"
  by (simp add: addPurchaseResult_def purchaseSaveSettled_def say_def)

lemma saveBorrowClick_frame:
  "borrowState (saveBorrowClick d s) = borrowState s \<and>
   borrowConfirmEdit (saveBorrowClick d s) = borrowConfirmEdit s"
  by (simp add: saveBorrowClick_def dispatchEvent_def say_def Let_def split: option.splits)

lemma savePurchaseClick_frame:
  "purchaseState (savePurchaseClick d s) = purchaseState s \<and>
   purchaseConfirmEdit (savePurchaseClick d s) = purchaseConfirmEdit s"
  by (simp add: savePurchaseClick_def dispatchEvent_def say_def Let_def split: option.splits)

lemma saveBorrowClick_enabled:
  "borrowPanelShown s \<Longrightarrow> \<not> borrowSaveDisabled s \<Longrightarrow>
   pendingBorrowSave (saveBorrowClick True s) \<and>
   response (saveBorrowClick False s) = Some BorrowSaveFailed \<and>
   \<not> isSaving (saveBorrowClick False s)"
  by (auto simp: saveBorrowClick_def borrowPanelShown_def dispatchEvent_def say_def Let_def
      split: option.splits)

lemma savePurchaseClick_enabled:
  "purchasePanelShown s \<Longrightarrow> \<not> purchaseSaveDisabled s \<Longrightarrow>
   pendingPurchaseSave (savePurchaseClick True s) \<and>
   response (savePurchaseClick False s) = Some PurchaseSaveFailed \<and>
   \<not> isSaving (savePurchaseClick False s)"
  by (auto simp: savePurchaseClick_def purchasePanelShown_def dispatchEvent_def say_def Let_def
      split: option.splits)

text \<open>
  C3, as amended. A commit made with the Save button leaves the conversation at
  confirm with its slots and edit copy as they were, and waits for the result. When
  the result is a failure, again nothing of the slots, the step or the edit copy
  changes; the fixed retry message of the flow is shown and spoken (in the loan flow
  the reason that came with the result is spoken before it), and \<open>isSaving\<close> is
  cleared so that Save can be pressed again. The same holds when the request itself is
  cancelled while it is dispatched.
\<close>

theorem failed_save_keeps_confirming:
  assumes "\<not> success r"
  shows "(pendingBorrowSave s \<and> b_step (borrowState s) = b_confirm \<longrightarrow>
            addBorrowResult r s =
              s\<lparr>response := Some BorrowSaveFailed,
                spoken := spoken s @ [ErrorReason (reasonOf r), BorrowSaveFailed],
                isSaving := False, pendingBorrowSave := False\<rparr>) \<and>
         (pendingPurchaseSave s \<longrightarrow>
            addPurchaseResult r s =
              s\<lparr>response := Some PurchaseSaveFailed,
                spoken := spoken s @ [PurchaseSaveFailed],
                isSaving := False, pendingPurchaseSave := False\<rparr>) \<and>
         (borrowPanelShown s \<and> \<not> borrowSaveDisabled s \<longrightarrow>
            pendingBorrowSave (saveBorrowClick True s) \<and>
            borrowState (saveBorrowClick True s) = borrowState s \<and>
            borrowConfirmEdit (saveBorrowClick True s) = borrowConfirmEdit s) \<and>
         (purchasePanelShown s \<and> \<not> purchaseSaveDisabled s \<longrightarrow>
            pendingPurchaseSave (savePurchaseClick True s) \<and>
            purchaseState (savePurchaseClick True s) = purchaseState s \<and>
            purchaseConfirmEdit (savePurchaseClick True s) = purchaseConfirmEdit s) \<and>
         (borrowPanelShown s \<and> \<not> borrowSaveDisabled s \<longrightarrow>
            borrowState (saveBorrowClick False s) = borrowState s \<and>
            borrowConfirmEdit (saveBorrowClick False s) = borrowConfirmEdit s \<and>
            response (saveBorrowClick False s) = Some BorrowSaveFailed \<and>
            \<not> isSaving (saveBorrowClick False s)) \<and>
         (purchasePanelShown s \<and> \<not> purchaseSaveDisabled s \<longrightarrow>
            purchaseState (savePurchaseClick False s) = purchaseState s \<and>
            purchaseConfirmEdit (savePurchaseClick False s) = purchaseConfirmEdit s \<and>
            response (savePurchaseClick False s) = Some PurchaseSaveFailed \<and>
            \<not> isSaving (savePurchaseClick False s))"
  using assms failed_borrow_result [of r s] failed_purchase_result [of r s]
    saveBorrowClick_frame [of True s] saveBorrowClick_frame [of False s]
    savePurchaseClick_frame [of True s] savePurchaseClick_frame [of False s]
    saveBorrowClick_enabled [of s] savePurchaseClick_enabled [of s]
  by simp

lemma save_enabled:
  "borrowPanelShown loanConfirming \<and> \<not> borrowSaveDisabled loanConfirming \<and>
   purchasePanelShown purchaseConfirming \<and> \<not> purchaseSaveDisabled purchaseConfirming"
  by (simp add: loanConfirming_eq purchaseConfirming_eq ravi_def abc_def initial_def panel vocab
      numbers)

theorem failed_save_keeps_confirming_witness:
  "\<not> success dbDown \<and>
   borrowPanelShown loanConfirming \<and> \<not> borrowSaveDisabled loanConfirming \<and>
   purchasePanelShown purchaseConfirming \<and> \<not> purchaseSaveDisabled purchaseConfirming \<and>
   pendingBorrowSave (saveBorrowClick True loanConfirming) \<and>
   b_step (borrowState (saveBorrowClick True loanConfirming)) = b_confirm \<and>
   pendingPurchaseSave (savePurchaseClick True purchaseConfirming) \<and>
   addBorrowResult dbDown (saveBorrowClick True loanConfirming) =
     loanConfirming\<lparr>response := Some BorrowSaveFailed,
       spoken := spoken loanConfirming @ [ErrorReason (Some (str ''db down'')), BorrowSaveFailed],
       dispatched := [AddBorrow (str ''Ravi'') (str ''500'') (str ''200''), DataUpdated]\<rparr> \<and>
   addPurchaseResult dbDown (savePurchaseClick True purchaseConfirming) =
     purchaseConfirming\<lparr>response := Some PurchaseSaveFailed,
       spoken := spoken purchaseConfirming @ [PurchaseSaveFailed],
       dispatched := [AddPurchase (str ''ABC'') (str ''900'') (str ''100''), DataUpdated]\<rparr> \<and>
   borrowState (saveBorrowClick False loanConfirming) = ravi \<and>
   response (saveBorrowClick False loanConfirming) = Some BorrowSaveFailed \<and>
   purchaseState (savePurchaseClick False purchaseConfirming) = abc \<and>
   response (savePurchaseClick False purchaseConfirming) = Some PurchaseSaveFailed"
proof -
  have f: "\<not> success dbDown" by (simp add: dbDown_def)
  have pb: "pendingBorrowSave (saveBorrowClick True loanConfirming) \<and>
            b_step (borrowState (saveBorrowClick True loanConfirming)) = b_confirm"
    by (simp add: loanConfirming_eq ravi_def steps vocab panel numbers)
  have pp: "pendingPurchaseSave (savePurchaseClick True purchaseConfirming)"
    by (simp add: purchaseConfirming_eq abc_def steps vocab panel numbers)
  from failed_save_keeps_confirming [of dbDown "saveBorrowClick True loanConfirming", OF f]
    failed_save_keeps_confirming [of dbDown "savePurchaseClick True purchaseConfirming", OF f]
    failed_save_keeps_confirming [of dbDown loanConfirming, OF f]
    failed_save_keeps_confirming [of dbDown purchaseConfirming, OF f]
    f pb pp save_enabled
  show ?thesis
    by (simp add: loanConfirming_eq purchaseConfirming_eq ravi_def abc_def dbDown_def steps
        vocab panel numbers)
qed

section \<open>Commits by voice and by button\<close>

text \<open>
  C1. The loan of the example, confirmed with a spoken yes: exactly one request is
  sent, but the step is done and the edit copy is dropped in the same handler, before
  any result; a failure that arrives afterwards changes nothing, the conversation
  stays at done with ``Record added successfully!''. Confirmed with the Save button
  instead, the same loan stays at confirm until the result comes, stays there on a
  failure and reaches done on success.
\<close>

theorem spoken_yes_is_done_before_any_result:
  "run noNumberWords loanConfirming [Transcript (str ''yes'')] =
     loanConfirming\<lparr>borrowState := ravi\<lparr>b_step := b_done\<rparr>, borrowConfirmEdit := None,
       response := Some RecordAdded, spoken := spoken loanConfirming @ [RecordAdded],
       dispatched := [AddBorrow (str ''Ravi'') (str ''500'') (str ''200''), DataUpdated]\<rparr> \<and>
   run noNumberWords loanConfirming [Transcript (str ''yes''), AddBorrowResult dbDown] =
     run noNumberWords loanConfirming [Transcript (str ''yes'')] \<and>
   run noNumberWords loanConfirming [SaveBorrowClick True] =
     loanConfirming\<lparr>isSaving := True, pendingBorrowSave := True,
       dispatched := [AddBorrow (str ''Ravi'') (str ''500'') (str ''200''), DataUpdated]\<rparr> \<and>
   b_step (borrowState
      (run noNumberWords loanConfirming [SaveBorrowClick True, AddBorrowResult dbDown])) = b_confirm \<and>
   b_step (borrowState
      (run noNumberWords loanConfirming [SaveBorrowClick True, AddBorrowResult saved])) = b_done"
  by (simp add: loanConfirming_eq ravi_def dbDown_def saved_def steps vocab panel numbers)

text \<open>
  C2. The purchase of the example with the amount edited to 0 in the panel: the Save
  button of the purchase panel accepts the click and the request is sent with a total
  of 0. The Save button of the loan panel ignores the click in the same situation, and
  a spoken yes to the purchase is answered with the missing-information prompt.
\<close>

theorem purchase_save_accepts_zero_amount:
  "purchaseConfirmEdit (run noNumberWords purchaseConfirming [EditPurchase AmountField (str ''0'')]) =
     Some (abc\<lparr>p_amount := str ''0''\<rparr>) \<and>
   dispatched (run noNumberWords purchaseConfirming
       [EditPurchase AmountField (str ''0''), SavePurchaseClick True]) =
     [AddPurchase (str ''ABC'') (str ''0'') (str ''100''), DataUpdated] \<and>
   run noNumberWords loanConfirming [EditBorrow AmountField (str ''0''), SaveBorrowClick True] =
     run noNumberWords loanConfirming [EditBorrow AmountField (str ''0'')] \<and>
   run noNumberWords purchaseConfirming
       [EditPurchase AmountField (str ''0''), Transcript (str ''yes'')] =
     say MissingPurchaseInfo
       (run noNumberWords purchaseConfirming [EditPurchase AmountField (str ''0'')])"
  by (simp add: purchaseConfirming_eq loanConfirming_eq abc_def ravi_def steps vocab panel numbers)

end
